theory Spec2Isabelle
  imports
    Complex_Main
    "HOL-Library.List_Lexorder"
    "HOL-Library.Char_ord"
    "HOL-Library.Sublist"
    "HOL-Library.Multiset"
begin

section \<open>The retail analytics dashboard: data model\<close>

text \<open>
  The program is one script, \<^verbatim>\<open>app.py\<close>: it generates a table of orders
  (\<^verbatim>\<open>load_data\<close>), filters it by a date range, a list of regions and a list of
  categories (\<^verbatim>\<open>filtered_df\<close>), and computes sums, groups and maxima over the
  filtered table.

  A pandas DataFrame is modelled as the list of its rows, in row order, and a row as a
  record with one field per column, under the column's name. A Series is the list of
  its values; a Series with an index is the list of its (label, value) pairs. A
  timestamp of the \<^verbatim>\<open>Date\<close> column always lies at midnight, so a date is its day
  number (days since 1970-01-01). A float64 value is modelled by the real number it
  stands for; where the script adds such values, the addition and its rounding are
  modelled in the section on aggregation.
\<close>

type_synonym date = int

record order =
  Date :: date
  Order_ID :: int
  Customer_ID :: int
  Region :: string
  Category :: string
  Product :: string
  Quantity :: int
  Unit_Price :: real
  Discount :: real
  Revenue :: real

type_synonym dataframe = "order list"

text \<open>The exceptions of Python and of the libraries that the script can meet.\<close>

datatype py_error = IndexError | ValueError

section \<open>Filtering (lines 66 to 71)\<close>

text \<open>
  \<^verbatim>\<open>df['Date'] >= v\<close>, \<^verbatim>\<open>df['Date'] <= v\<close> and \<^verbatim>\<open>col.isin(values)\<close> each give a
  Series of booleans, one per row; \<^verbatim>\<open>&\<close> combines two of them row by row;
  \<^verbatim>\<open>df[mask]\<close> keeps the rows whose mask entry is true.
\<close>

definition series_ge :: "date list \<Rightarrow> date \<Rightarrow> bool list" where
  "series_ge col v = map (\<lambda>x. v \<le> x) col"

definition series_le :: "date list \<Rightarrow> date \<Rightarrow> bool list" where
  "series_le col v = map (\<lambda>x. x \<le> v) col"

definition isin :: "'a list \<Rightarrow> 'a list \<Rightarrow> bool list" where
  "isin col vals = map (\<lambda>x. x \<in> set vals) col"

definition series_and :: "bool list \<Rightarrow> bool list \<Rightarrow> bool list" where
  "series_and a b = map (\<lambda>(x, y). x \<and> y) (zip a b)"

definition boolean_index :: "'a list \<Rightarrow> bool list \<Rightarrow> 'a list" where
  "boolean_index rows keep = map fst (filter snd (zip rows keep))"

text \<open>
  \<^verbatim>\<open>date_range[0]\<close> and \<^verbatim>\<open>date_range[1]\<close> index a tuple: Python raises IndexError
  when the tuple is too short.
\<close>

definition tuple_get :: "'a list \<Rightarrow> nat \<Rightarrow> py_error + 'a" where
  "tuple_get t i = (if i < length t then Inr (t ! i) else Inl IndexError)"

definition filtered_df ::
  "dataframe \<Rightarrow> date list \<Rightarrow> string list \<Rightarrow> string list \<Rightarrow> py_error + dataframe" where
  "filtered_df df date_range regions categories =
     (case tuple_get date_range 0 of
        Inl e \<Rightarrow> Inl e
      | Inr lo \<Rightarrow>
          (case tuple_get date_range 1 of
             Inl e \<Rightarrow> Inl e
           | Inr hi \<Rightarrow>
               Inr (boolean_index df
                 (series_and
                   (series_and
                     (series_and (series_ge (map Date df) lo) (series_le (map Date df) hi))
                     (isin (map Region df) regions))
                   (isin (map Category df) categories)))))"

text \<open>
  The filter as the specification words it: a record is retained iff its date lies in
  the closed range and its region and category are members of the two sets.
\<close>

definition retained :: "date \<Rightarrow> date \<Rightarrow> string set \<Rightarrow> string set \<Rightarrow> order \<Rightarrow> bool" where
  "retained start_date end_date region_set category_set r \<longleftrightarrow>
     start_date \<le> Date r \<and> Date r \<le> end_date \<and>
     Region r \<in> region_set \<and> Category r \<in> category_set"

text \<open>
  The assignment \<^verbatim>\<open>filtered_df = df[...]\<close> as a step on the script's two
  globals: indexing with a mask builds a new frame and binds it to
  \<^verbatim>\<open>filtered_df\<close>; an exception leaves no new state.
\<close>

record globals =
  g_df :: dataframe
  g_filtered_df :: dataframe

definition assign_filtered_df ::
  "globals \<Rightarrow> date list \<Rightarrow> string list \<Rightarrow> string list \<Rightarrow> py_error + globals" where
  "assign_filtered_df g date_range regions categories =
     (case filtered_df (g_df g) date_range regions categories of
        Inl e \<Rightarrow> Inl e
      | Inr v \<Rightarrow> Inr (g\<lparr>g_filtered_df := v\<rparr>))"

section \<open>Generation (lines 27 to 46)\<close>

text \<open>
  \<^verbatim>\<open>load_data\<close> seeds numpy's generator and draws seven arrays from it, in the
  order of the dictionary. The generator is not part of the repository: the arrays
  it returns are a parameter, each as the function from a position to the value drawn
  there. \<open>numpy_ranges\<close> is what numpy documents about the values:
  \<^verbatim>\<open>randint(lo, hi)\<close> and \<^verbatim>\<open>uniform(lo, hi)\<close> draw from \<open>[lo, hi)\<close>, and
  \<^verbatim>\<open>choice(xs)\<close> draws an element of \<open>xs\<close>.
\<close>

record draws =
  customer_id_draw :: "nat \<Rightarrow> int"
  region_draw :: "nat \<Rightarrow> string"
  category_draw :: "nat \<Rightarrow> string"
  product_draw :: "nat \<Rightarrow> string"
  quantity_draw :: "nat \<Rightarrow> int"
  unit_price_draw :: "nat \<Rightarrow> real"
  discount_draw :: "nat \<Rightarrow> real"

definition region_options :: "string list" where
  "region_options = [''North America'', ''Europe'', ''Asia'', ''LATAM'']"

definition category_options :: "string list" where
  "category_options = [''Electronics'', ''Clothing'', ''Home'', ''Books'']"

definition product_options :: "string list" where
  "product_options = [''iPhone'', ''T-Shirt'', ''Sofa'', ''Novel'']"

definition numpy_ranges :: "draws \<Rightarrow> bool" where
  "numpy_ranges d \<longleftrightarrow>
     (\<forall>i. 1000 \<le> customer_id_draw d i \<and> customer_id_draw d i < 5000) \<and>
     (\<forall>i. region_draw d i \<in> set region_options) \<and>
     (\<forall>i. category_draw d i \<in> set category_options) \<and>
     (\<forall>i. product_draw d i \<in> set product_options) \<and>
     (\<forall>i. 1 \<le> quantity_draw d i \<and> quantity_draw d i < 10) \<and>
     (\<forall>i. 10 \<le> unit_price_draw d i \<and> unit_price_draw d i < 1000) \<and>
     (\<forall>i. 0 \<le> discount_draw d i \<and> discount_draw d i < 3 / 10)"

text \<open>
  \<^verbatim>\<open>pd.date_range(start=s, periods=n)\<close> is the \<open>n\<close> consecutive days from \<open>s\<close>;
  \<^verbatim>\<open>np.tile(xs, reps)\<close> is \<open>xs\<close> repeated \<open>reps\<close> times, as whole blocks.
\<close>

definition pd_date_range :: "date \<Rightarrow> nat \<Rightarrow> date list" where
  "pd_date_range start periods = map (\<lambda>k. start + int k) [0..<periods]"

definition np_tile :: "'a list \<Rightarrow> nat \<Rightarrow> 'a list" where
  "np_tile xs reps = concat (replicate reps xs)"

text \<open>
  Row \<open>i\<close> of the frame built at lines 32 to 44: position \<open>i\<close> of every column of the
  dictionary, \<^verbatim>\<open>Order_ID\<close> from \<^verbatim>\<open>range(1, total + 1)\<close>, and the
  \<^verbatim>\<open>Revenue\<close> column of line 44, computed from three columns of the same row.
\<close>

definition frame_row :: "date list \<Rightarrow> draws \<Rightarrow> nat \<Rightarrow> order" where
  "frame_row date_col d i =
     (let quantity = quantity_draw d i;
          unit_price = unit_price_draw d i;
          discount = discount_draw d i
      in \<lparr>Date = date_col ! i,
          Order_ID = int i + 1,
          Customer_ID = customer_id_draw d i,
          Region = region_draw d i,
          Category = category_draw d i,
          Product = product_draw d i,
          Quantity = quantity,
          Unit_Price = unit_price,
          Discount = discount,
          Revenue = of_int quantity * unit_price * (1 - discount)\<rparr>)"

text \<open>
  The body of \<^verbatim>\<open>load_data\<close> with its three literals (365 days, 100 records per
  day, the start 2025-01-01) as arguments, and \<^verbatim>\<open>load_data\<close> itself, which fixes
  them. The counts are sizes of arrays, hence natural numbers. 2025-01-01 is day
  20089.
\<close>

definition load_data_with :: "nat \<Rightarrow> nat \<Rightarrow> date \<Rightarrow> draws \<Rightarrow> dataframe" where
  "load_data_with n_days per_day start d =
     (let dates = pd_date_range start n_days;
          date_col = np_tile dates per_day
      in map (frame_row date_col d) [0..<n_days * per_day])"

definition load_data :: "draws \<Rightarrow> dataframe" where
  "load_data d = load_data_with 365 100 20089 d"

section \<open>Aggregation (lines 75, 105, 111 and 131 to 133)\<close>

text \<open>
  Adding two float64 numbers gives the float64 number nearest to their exact sum, a
  tie going to the one with the even significand (IEEE 754, binary64). A number
  \<open>x\<close> with \<open>2 ^ e \<le> \<bar>x\<bar> < 2 ^ (e + 1)\<close> has its neighbours \<open>2 ^ (e - 52)\<close>
  apart. Overflow and subnormal numbers are left out: revenues are far from both.
\<close>

definition round_half_even :: "real \<Rightarrow> int" where
  "round_half_even x =
     (let n = \<lfloor>x\<rfloor>; d = x - of_int n
      in if d < 1 / 2 then n else if 1 / 2 < d then n + 1 else if even n then n else n + 1)"

definition binade :: "real \<Rightarrow> int" where
  "binade x = \<lfloor>log 2 \<bar>x\<bar>\<rfloor>"

definition round64 :: "real \<Rightarrow> real" where
  "round64 x =
     (if x = 0 then 0
      else let ulp = 2 powr of_int (binade x - 52)
           in of_int (round_half_even (x / ulp)) * ulp)"

definition fl64_add :: "real \<Rightarrow> real \<Rightarrow> real" where
  "fl64_add x y = round64 (x + y)"

text \<open>
  \<^verbatim>\<open>Series.sum()\<close> adds the values of a Series. In which order pandas and numpy
  add them, and with what compensation, is their matter and not the repository's:
  the summation is the parameter \<open>fsum\<close> of every sum below. Two summations are
  defined here: \<open>sum_list\<close>, the exact sum, and \<open>fl64_sum\<close>, float64 additions in
  the order of the values.
\<close>

definition fl64_sum :: "real list \<Rightarrow> real" where
  "fl64_sum xs = foldl fl64_add 0 xs"

definition kpi_revenue :: "(real list \<Rightarrow> real) \<Rightarrow> dataframe \<Rightarrow> real" where
  "kpi_revenue fsum view = fsum (map Revenue view)"

text \<open>
  \<^verbatim>\<open>view.groupby(key)['Revenue'].sum()\<close> is a Series with one entry per key that
  occurs in the view, in ascending order of the keys (pandas sorts the group keys),
  holding the sum of the revenues of the rows with that key, taken in row order.
\<close>

definition groupby_with ::
  "(real list \<Rightarrow> real) \<Rightarrow> (order \<Rightarrow> 'k::linorder) \<Rightarrow> dataframe \<Rightarrow> ('k \<times> real) list" where
  "groupby_with fsum key view =
     map (\<lambda>k. (k, fsum (map Revenue (filter (\<lambda>r. key r = k) view))))
       (sort (remdups (map key view)))"

definition daily_revenue :: "(real list \<Rightarrow> real) \<Rightarrow> dataframe \<Rightarrow> (date \<times> real) list" where
  "daily_revenue fsum view = groupby_with fsum Date view"

definition region_rev :: "(real list \<Rightarrow> real) \<Rightarrow> dataframe \<Rightarrow> (string \<times> real) list" where
  "region_rev fsum view = groupby_with fsum Region view"

text \<open>The grouped sums with the exact summation, as lines 131 to 133 are modelled.\<close>

definition group_total :: "(order \<Rightarrow> 'k) \<Rightarrow> dataframe \<Rightarrow> 'k \<Rightarrow> real" where
  "group_total key view k = sum_list (map Revenue (filter (\<lambda>r. key r = k) view))"

definition groupby_sum :: "(order \<Rightarrow> 'k::linorder) \<Rightarrow> dataframe \<Rightarrow> ('k \<times> real) list" where
  "groupby_sum key view =
     map (\<lambda>k. (k, group_total key view k)) (sort (remdups (map key view)))"

text \<open>
  \<^verbatim>\<open>Series.max()\<close> of an empty Series is NaN; \<^verbatim>\<open>Series.idxmax()\<close> of an empty
  Series raises ValueError, and otherwise returns the label of the first entry, in
  the order of the Series, that holds the maximum.
\<close>

datatype float64 = NaN | Finite real

fun first_max :: "'k \<times> real \<Rightarrow> ('k \<times> real) list \<Rightarrow> 'k \<times> real" where
  "first_max best [] = best"
| "first_max best (kv # s) = first_max (if snd best < snd kv then kv else best) s"

definition series_max :: "('k \<times> real) list \<Rightarrow> float64" where
  "series_max s = (case s of [] \<Rightarrow> NaN | kv # rest \<Rightarrow> Finite (snd (first_max kv rest)))"

definition idxmax :: "('k \<times> real) list \<Rightarrow> py_error + 'k" where
  "idxmax s = (case s of [] \<Rightarrow> Inl ValueError | kv # rest \<Rightarrow> Inr (fst (first_max kv rest)))"

text \<open>
  Lines 131 to 133. The date that line 133 finds is shown through
  \<^verbatim>\<open>strftime\<close>; the model returns the date itself.
\<close>

definition top_category_revenue :: "dataframe \<Rightarrow> float64" where
  "top_category_revenue view = series_max (groupby_sum Category view)"

definition top_region :: "dataframe \<Rightarrow> py_error + string" where
  "top_region view = idxmax (groupby_sum Region view)"

definition busiest_day :: "dataframe \<Rightarrow> py_error + date" where
  "busiest_day view = idxmax (groupby_sum Date view)"

section \<open>Export (lines 120 and 121)\<close>

text \<open>
  \<^verbatim>\<open>filtered_df.to_csv(buffer, index=False)\<close> writes every column of the frame: a
  line with the column names, then one line per row, the cells joined by commas. How
  pandas prints a date, an integer, a float and a string (with the quoting of the
  csv module) is a parameter.
\<close>

definition frame_columns :: "string list" where
  "frame_columns =
     [''Date'', ''Order_ID'', ''Customer_ID'', ''Region'', ''Category'', ''Product'',
      ''Quantity'', ''Unit_Price'', ''Discount'', ''Revenue'']"

record cell_format =
  fmt_date :: "date \<Rightarrow> string"
  fmt_int :: "int \<Rightarrow> string"
  fmt_float :: "real \<Rightarrow> string"
  fmt_str :: "string \<Rightarrow> string"

definition csv_cells :: "cell_format \<Rightarrow> order \<Rightarrow> string list" where
  "csv_cells fm r =
     [fmt_date fm (Date r), fmt_int fm (Order_ID r), fmt_int fm (Customer_ID r),
      fmt_str fm (Region r), fmt_str fm (Category r), fmt_str fm (Product r),
      fmt_int fm (Quantity r), fmt_float fm (Unit_Price r), fmt_float fm (Discount r),
      fmt_float fm (Revenue r)]"

fun join_commas :: "string list \<Rightarrow> string" where
  "join_commas [] = []"
| "join_commas [c] = c"
| "join_commas (c # cs) = c @ '','' @ join_commas cs"

definition to_csv_rows :: "cell_format \<Rightarrow> dataframe \<Rightarrow> string list list" where
  "to_csv_rows fm view = frame_columns # map (csv_cells fm) view"

definition to_csv :: "cell_format \<Rightarrow> dataframe \<Rightarrow> string" where
  "to_csv fm view = concat (map (\<lambda>row. join_commas row @ [CHR 0x0A]) (to_csv_rows fm view))"

text \<open>The columns that line 117 selects for the table on the page.\<close>

definition table_columns :: "string list" where
  "table_columns =
     [''Date'', ''Region'', ''Category'', ''Product'', ''Quantity'', ''Unit_Price'', ''Revenue'']"

section \<open>Sample data\<close>

text \<open>Concrete draws, rows and formats, on which the theorems below are instantiated.\<close>

definition sample_draws :: draws where
  "sample_draws =
     \<lparr>customer_id_draw = (\<lambda>i. 1000 + int (i mod 4000)),
      region_draw = (\<lambda>i. if even i then ''Europe'' else ''Asia''),
      category_draw = (\<lambda>i. ''Books''),
      product_draw = (\<lambda>i. ''Novel''),
      quantity_draw = (\<lambda>i. 2),
      unit_price_draw = (\<lambda>i. 10),
      discount_draw = (\<lambda>i. 1 / 10)\<rparr>"

definition order_na :: order where
  "order_na =
     \<lparr>Date = 20090, Order_ID = 1, Customer_ID = 1000, Region = ''North America'',
      Category = ''Books'', Product = ''Novel'', Quantity = 1, Unit_Price = 10,
      Discount = 0, Revenue = 10\<rparr>"

definition order_asia :: order where
  "order_asia =
     \<lparr>Date = 20089, Order_ID = 2, Customer_ID = 1001, Region = ''Asia'',
      Category = ''Home'', Product = ''Sofa'', Quantity = 1, Unit_Price = 10,
      Discount = 0, Revenue = 10\<rparr>"

definition order_eu :: order where
  "order_eu =
     \<lparr>Date = 20091, Order_ID = 3, Customer_ID = 1002, Region = ''Europe'',
      Category = ''Books'', Product = ''Novel'', Quantity = 2, Unit_Price = 20,
      Discount = 1 / 4, Revenue = 30\<rparr>"

definition sample_frame :: dataframe where
  "sample_frame = [order_na, order_asia, order_eu]"

definition tie_frame :: dataframe where
  "tie_frame = [order_na, order_asia]"

text \<open>
  Three rows whose revenues are the float64 numbers written 10.2, 10.1 and 10.2 in
  Python: 10.2 is \<open>2871044762448691 / 2 ^ 48\<close> and 10.1 is
  \<open>5685794529555251 / 2 ^ 49\<close>.
\<close>

definition order_eu_a :: order where
  "order_eu_a =
     \<lparr>Date = 20089, Order_ID = 1, Customer_ID = 1000, Region = ''Europe'',
      Category = ''Books'', Product = ''Novel'', Quantity = 1,
      Unit_Price = 2871044762448691 / 281474976710656, Discount = 0,
      Revenue = 2871044762448691 / 281474976710656\<rparr>"

definition order_asia_b :: order where
  "order_asia_b =
     \<lparr>Date = 20089, Order_ID = 2, Customer_ID = 1001, Region = ''Asia'',
      Category = ''Books'', Product = ''Novel'', Quantity = 1,
      Unit_Price = 5685794529555251 / 562949953421312, Discount = 0,
      Revenue = 5685794529555251 / 562949953421312\<rparr>"

definition order_eu_c :: order where
  "order_eu_c =
     \<lparr>Date = 20089, Order_ID = 3, Customer_ID = 1002, Region = ''Europe'',
      Category = ''Books'', Product = ''Novel'', Quantity = 1,
      Unit_Price = 2871044762448691 / 281474976710656, Discount = 0,
      Revenue = 2871044762448691 / 281474976710656\<rparr>"

definition rounding_frame :: dataframe where
  "rounding_frame = [order_eu_a, order_asia_b, order_eu_c]"

definition sample_format :: cell_format where
  "sample_format =
     \<lparr>fmt_date = (\<lambda>d. ''d''), fmt_int = (\<lambda>i. ''i''), fmt_float = (\<lambda>x. ''x''),
      fmt_str = (\<lambda>s. s)\<rparr>"

section \<open>Properties of the filter\<close>

lemma boolean_index_map:
  "boolean_index rows (map P rows) = filter P rows"
  by (induction rows) (simp_all add: boolean_index_def)

lemma series_and_map:
  "series_and (map P rows) (map Q rows) = map (\<lambda>r. P r \<and> Q r) rows"
  by (induction rows) (simp_all add: series_and_def)

lemma filtered_df_pair:
  "filtered_df df [lo, hi] regions categories =
     Inr (filter (retained lo hi (set regions) (set categories)) df)"
proof -
  have row_mask:
    "series_and
       (series_and
         (series_and (series_ge (map Date df) lo) (series_le (map Date df) hi))
         (isin (map Region df) regions))
       (isin (map Category df) categories)
     = map (retained lo hi (set regions) (set categories)) df"
    by (simp add: series_ge_def series_le_def isin_def series_and_map retained_def
        comp_def conj_assoc)
  show ?thesis
    by (simp add: filtered_df_def tuple_get_def row_mask boolean_index_map)
qed

lemma filtered_df_short_tuple:
  "length date_range < 2 \<Longrightarrow> filtered_df df date_range regions categories = Inl IndexError"
  by (cases date_range) (simp_all add: filtered_df_def tuple_get_def)

lemmas sample_orders = sample_frame_def tie_frame_def order_na_def order_asia_def order_eu_def

text \<open>
  C1. For every dataset and every criteria (a start date, an end date, a list of
  regions and a list of categories), the filter returns without an exception and its
  result is exactly the sequence of the records that satisfy
  \<open>start_date \<le> date \<le> end_date\<close>, have their region among the regions and their
  category among the categories; the records keep their relative order in the
  dataset.
\<close>

theorem filtered_df_retains_exactly:
  "filtered_df df [start_date, end_date] regions categories =
     Inr (filter (retained start_date end_date (set regions) (set categories)) df) \<and>
   subseq (filter (retained start_date end_date (set regions) (set categories)) df) df"
  using filtered_df_pair [of df start_date end_date regions categories]
  by simp

theorem filtered_df_retains_exactly_witness:
  "filtered_df sample_frame [20089, 20090] [''Asia'', ''Europe''] [''Home'', ''Books'']
     = Inr [order_asia]"
  using filtered_df_retains_exactly
    [of sample_frame 20089 20090 "[''Asia'', ''Europe'']" "[''Home'', ''Books'']"]
  by (simp add: retained_def sample_orders)

text \<open>
  With a date range of two dates the filter returns a view, and the view is empty
  when the list of regions is empty, when the list of categories is empty, and when
  the start date lies after the end date.
\<close>

lemma filtered_df_total_and_empty_on_degenerate:
  "(\<exists>view. filtered_df df [start_date, end_date] regions categories = Inr view) \<and>
   (set regions = {} \<or> set categories = {} \<or> end_date < start_date \<longrightarrow>
      filtered_df df [start_date, end_date] regions categories = Inr [])"
proof -
  have "filter (retained start_date end_date (set regions) (set categories)) df = []"
    if "set regions = {} \<or> set categories = {} \<or> end_date < start_date"
    using that by (auto simp add: filter_empty_conv retained_def)
  then show ?thesis
    by (simp add: filtered_df_pair)
qed

lemma filtered_df_total_and_empty_on_degenerate_witness:
  "filtered_df sample_frame [20089, 20091] [] [''Home'', ''Books''] = Inr [] \<and>
   filtered_df sample_frame [20089, 20091] [''Asia'', ''Europe''] [] = Inr [] \<and>
   filtered_df sample_frame [20091, 20089] [''Asia'', ''Europe''] [''Home'', ''Books''] = Inr []"
  using
    filtered_df_total_and_empty_on_degenerate
      [of sample_frame 20089 20091 "[]" "[''Home'', ''Books'']"]
    filtered_df_total_and_empty_on_degenerate
      [of sample_frame 20089 20091 "[''Asia'', ''Europe'']" "[]"]
    filtered_df_total_and_empty_on_degenerate
      [of sample_frame 20091 20089 "[''Asia'', ''Europe'']" "[''Home'', ''Books'']"]
  by simp

text \<open>
  C2. The filter is to return a view for every criteria and never to raise. The date
  range is what \<^verbatim>\<open>st.sidebar.date_input\<close> returns: a tuple of one date once the
  user has picked the start of a new range and not yet its end. On it
  \<^verbatim>\<open>date_range[1]\<close> at line 68 raises IndexError, whatever the regions and the
  categories: no view is returned.
\<close>

theorem filtered_df_one_date_raises:
  "filtered_df sample_frame [20089] [''Asia'', ''Europe''] [''Home'', ''Books'']
     = Inl IndexError"
  by (simp add: filtered_df_short_tuple)

text \<open>
  C9. Filtering a filtered view again with the same criteria gives the same view, and
  the assignment of the filtered view leaves the dataset \<^verbatim>\<open>df\<close> as it was.
\<close>

theorem filtered_df_idempotent_source_unchanged:
  "(\<exists>view. filtered_df df [start_date, end_date] regions categories = Inr view \<and>
      filtered_df view [start_date, end_date] regions categories = Inr view) \<and>
   (\<exists>g'. assign_filtered_df g [start_date, end_date] regions categories = Inr g' \<and>
      g_df g' = g_df g)"
  by (simp add: filtered_df_pair assign_filtered_df_def)

theorem filtered_df_idempotent_source_unchanged_witness:
  "filtered_df sample_frame [20089, 20090] [''Asia'', ''Europe''] [''Home'', ''Books'']
     = Inr [order_asia] \<and>
   filtered_df [order_asia] [20089, 20090] [''Asia'', ''Europe''] [''Home'', ''Books'']
     = Inr [order_asia] \<and>
   map_sum id g_df
     (assign_filtered_df \<lparr>g_df = sample_frame, g_filtered_df = []\<rparr>
        [20089, 20090] [''Asia'', ''Europe''] [''Home'', ''Books''])
     = Inr sample_frame"
  using filtered_df_idempotent_source_unchanged
    [of sample_frame 20089 20090 "[''Asia'', ''Europe'']" "[''Home'', ''Books'']"
        "\<lparr>g_df = sample_frame, g_filtered_df = []\<rparr>"]
  by (simp add: filtered_df_pair assign_filtered_df_def retained_def sample_orders)

section \<open>Properties of the generator\<close>

lemma length_np_tile: "length (np_tile xs reps) = length xs * reps"
  by (induction reps) (simp_all add: np_tile_def)

lemma nth_np_tile:
  "i < length xs * reps \<Longrightarrow> np_tile xs reps ! i = xs ! (i mod length xs)"
proof (induction reps arbitrary: i)
  case 0
  then show ?case by simp
next
  case (Suc reps)
  have unfold_tile: "np_tile xs (Suc reps) = xs @ np_tile xs reps"
    by (simp add: np_tile_def)
  show ?case
  proof (cases "i < length xs")
    case True
    then show ?thesis by (simp add: unfold_tile nth_append)
  next
    case False
    then have "i - length xs < length xs * reps"
      using Suc.prems by simp
    then have "np_tile xs reps ! (i - length xs) = xs ! ((i - length xs) mod length xs)"
      by (rule Suc.IH)
    moreover have "(i - length xs) mod length xs = i mod length xs"
      using False by (simp add: le_mod_geq)
    ultimately show ?thesis
      using False by (simp add: unfold_tile nth_append)
  qed
qed

lemma length_pd_date_range: "length (pd_date_range start periods) = periods"
  by (simp add: pd_date_range_def)

lemma nth_pd_date_range:
  "k < periods \<Longrightarrow> pd_date_range start periods ! k = start + int k"
  by (simp add: pd_date_range_def)

lemma length_load_data_with:
  "length (load_data_with n_days per_day start d) = n_days * per_day"
  by (simp add: load_data_with_def Let_def)

lemma nth_load_data_with:
  "i < n_days * per_day \<Longrightarrow>
     load_data_with n_days per_day start d ! i =
       frame_row (np_tile (pd_date_range start n_days) per_day) d i"
  by (simp add: load_data_with_def Let_def)

lemma Date_frame_row: "Date (frame_row date_col d i) = date_col ! i"
  by (simp add: frame_row_def Let_def)

lemma date_load_data_with:
  assumes "i < n_days * per_day"
  shows "Date (load_data_with n_days per_day start d ! i) =
           pd_date_range start n_days ! (i mod n_days)"
  using assms
  by (simp add: nth_load_data_with Date_frame_row nth_np_tile length_pd_date_range)

text \<open>
  C3. The date of record \<open>i\<close> (counted from 0, in generation order) is
  \<open>dates[i mod n_days]\<close>, where \<open>dates\<close> is the sequence of the \<open>n_days\<close>
  consecutive days from the start date: the whole sequence is repeated as a block,
  once per record of a day. For \<^verbatim>\<open>load_data\<close> itself, record \<open>j\<close> of the 36500
  lies \<open>j mod 365\<close> days after 2025-01-01.
\<close>

theorem load_data_dates_tiled:
  "(i < n_days * per_day \<longrightarrow>
      Date (load_data_with n_days per_day start d ! i) =
        pd_date_range start n_days ! (i mod n_days) \<and>
      pd_date_range start n_days ! (i mod n_days) = start + int (i mod n_days)) \<and>
   (j < 36500 \<longrightarrow> Date (load_data d ! j) = 20089 + int (j mod 365))"
proof -
  have general: "Date (load_data_with n p s d ! k) = pd_date_range s n ! (k mod n) \<and>
      pd_date_range s n ! (k mod n) = s + int (k mod n)"
    if "k < n * p" for n p s k
  proof -
    from that have "0 < n" by (cases n) simp_all
    then have "k mod n < n" by simp
    then show ?thesis
      using that by (simp add: date_load_data_with nth_pd_date_range)
  qed
  show ?thesis
    using general [of i n_days per_day start] general [of j 365 100 20089]
    by (simp add: load_data_def)
qed

theorem load_data_dates_tiled_witness:
  "Date (load_data_with 3 2 20089 sample_draws ! 4) = pd_date_range 20089 3 ! 1 \<and>
   pd_date_range 20089 3 ! 1 = 20090 \<and>
   Date (load_data sample_draws ! 400) = 20124"
  using load_data_dates_tiled [of 4 3 2 20089 sample_draws 400]
  by simp


lemma frame_row_revenue:
  "Revenue (frame_row date_col d i) =
     of_int (Quantity (frame_row date_col d i)) * Unit_Price (frame_row date_col d i) *
       (1 - Discount (frame_row date_col d i))"
  by (simp add: frame_row_def Let_def)

lemma frame_row_revenue_nonneg:
  assumes "numpy_ranges d"
  shows "0 \<le> Revenue (frame_row date_col d i)"
proof -
  from assms have q: "1 \<le> quantity_draw d i"
    and u: "10 \<le> unit_price_draw d i"
    and c: "discount_draw d i < 3 / 10"
    by (simp_all add: numpy_ranges_def)
  from q have "0 \<le> (of_int (quantity_draw d i) :: real)" by simp
  moreover from u have "0 \<le> unit_price_draw d i" by simp
  moreover from c have "0 \<le> 1 - discount_draw d i" by simp
  ultimately show ?thesis
    by (simp add: frame_row_def Let_def)
qed

lemma load_data_with_rows:
  "r \<in> set (load_data_with n_days per_day start d) \<Longrightarrow>
     \<exists>i. r = frame_row (np_tile (pd_date_range start n_days) per_day) d i"
  by (auto simp add: load_data_with_def Let_def)

lemma boolean_index_subset: "set (boolean_index rows keep) \<subseteq> set rows"
  by (auto simp add: boolean_index_def dest: set_zip_leftD)

lemma filtered_df_subset:
  "filtered_df df date_range regions categories = Inr view \<Longrightarrow> set view \<subseteq> set df"
  using boolean_index_subset [of df]
  by (auto simp add: filtered_df_def split: sum.splits)

text \<open>
  C6. When the drawn values lie in the ranges numpy documents, every generated record
  has \<open>revenue = quantity * unit_price * (1 - discount)\<close> and a revenue of at least
  0; the records of every filtered view of the generated dataset are records of the
  dataset, so they have the same revenue: nothing after line 44 sets it.
\<close>

theorem revenue_derived_and_nonneg:
  assumes "numpy_ranges d"
  shows
    "(\<forall>r \<in> set (load_data_with n_days per_day start d).
        Revenue r = of_int (Quantity r) * Unit_Price r * (1 - Discount r) \<and> 0 \<le> Revenue r) \<and>
     (\<forall>r \<in> set (load_data d).
        Revenue r = of_int (Quantity r) * Unit_Price r * (1 - Discount r) \<and> 0 \<le> Revenue r) \<and>
     (\<forall>view. filtered_df (load_data d) date_range regions categories = Inr view \<longrightarrow>
        (\<forall>r \<in> set view.
           Revenue r = of_int (Quantity r) * Unit_Price r * (1 - Discount r) \<and> 0 \<le> Revenue r))"
proof -
  have rows: "Revenue r = of_int (Quantity r) * Unit_Price r * (1 - Discount r) \<and> 0 \<le> Revenue r"
    if "r \<in> set (load_data_with n p s d)" for n p s r
  proof -
    from that obtain i where "r = frame_row (np_tile (pd_date_range s n) p) d i"
      using load_data_with_rows by blast
    then show ?thesis
      using frame_row_revenue frame_row_revenue_nonneg [OF assms] by simp
  qed
  have kept: "r \<in> set (load_data_with 365 100 20089 d)"
    if "filtered_df (load_data d) date_range regions categories = Inr view" and "r \<in> set view"
    for view r
    using that filtered_df_subset [of "load_data d" date_range regions categories view]
    by (auto simp add: load_data_def)
  show ?thesis
  proof (intro conjI ballI allI impI)
    fix r assume "r \<in> set (load_data_with n_days per_day start d)"
    then show "Revenue r = of_int (Quantity r) * Unit_Price r * (1 - Discount r)"
      and "0 \<le> Revenue r"
      using rows by blast+
  next
    fix r assume "r \<in> set (load_data d)"
    then have "r \<in> set (load_data_with 365 100 20089 d)"
      by (simp add: load_data_def)
    then show "Revenue r = of_int (Quantity r) * Unit_Price r * (1 - Discount r)"
      and "0 \<le> Revenue r"
      using rows by blast+
  next
    fix view r
    assume "filtered_df (load_data d) date_range regions categories = Inr view"
      and "r \<in> set view"
    then have "r \<in> set (load_data_with 365 100 20089 d)"
      by (rule kept)
    then show "Revenue r = of_int (Quantity r) * Unit_Price r * (1 - Discount r)"
      and "0 \<le> Revenue r"
      using rows by blast+
  qed
qed

theorem revenue_derived_and_nonneg_witness:
  "numpy_ranges sample_draws \<and>
   load_data_with 1 2 20089 sample_draws ! 1 \<in> set (load_data_with 1 2 20089 sample_draws) \<and>
   Revenue (load_data_with 1 2 20089 sample_draws ! 1) = 18 \<and>
   Revenue (load_data_with 1 2 20089 sample_draws ! 1) =
     of_int (Quantity (load_data_with 1 2 20089 sample_draws ! 1)) *
     Unit_Price (load_data_with 1 2 20089 sample_draws ! 1) *
     (1 - Discount (load_data_with 1 2 20089 sample_draws ! 1)) \<and>
   0 \<le> Revenue (load_data_with 1 2 20089 sample_draws ! 1)"
proof -
  have ranges: "numpy_ranges sample_draws"
    by (simp add: numpy_ranges_def sample_draws_def region_options_def
        category_options_def product_options_def)
  have row: "load_data_with 1 2 20089 sample_draws ! 1 \<in> set (load_data_with 1 2 20089 sample_draws)"
    by (simp add: length_load_data_with)
  have val: "Revenue (load_data_with 1 2 20089 sample_draws ! 1) = 18"
    by (simp add: nth_load_data_with frame_row_def sample_draws_def)
  from revenue_derived_and_nonneg [OF ranges, of 1 2 20089] row
  have "Revenue (load_data_with 1 2 20089 sample_draws ! 1) =
     of_int (Quantity (load_data_with 1 2 20089 sample_draws ! 1)) *
     Unit_Price (load_data_with 1 2 20089 sample_draws ! 1) *
     (1 - Discount (load_data_with 1 2 20089 sample_draws ! 1)) \<and>
   0 \<le> Revenue (load_data_with 1 2 20089 sample_draws ! 1)"
    by blast
  with ranges row val show ?thesis by simp
qed

lemma length_load_data: "length (load_data d) = 36500"
  by (simp add: load_data_def length_load_data_with)

section \<open>Properties of the aggregates\<close>

lemma sum_list_group_totals:
  "finite K \<Longrightarrow> key ` set view \<subseteq> K \<Longrightarrow>
     (\<Sum>k\<in>K. group_total key view k) = sum_list (map Revenue view)"
proof (induction view)
  case Nil
  then show ?case by (simp add: group_total_def)
next
  case (Cons r view)
  have step: "group_total key (r # view) k =
      (if k = key r then Revenue r else 0) + group_total key view k" for k
    by (simp add: group_total_def)
  have "(\<Sum>k\<in>K. group_total key (r # view) k) =
      (\<Sum>k\<in>K. if k = key r then Revenue r else 0) + (\<Sum>k\<in>K. group_total key view k)"
    by (simp add: step sum.distrib)
  also have "(\<Sum>k\<in>K. if k = key r then Revenue r else 0) = Revenue r"
    using Cons.prems by (simp add: sum.delta)
  also have "(\<Sum>k\<in>K. group_total key view k) = sum_list (map Revenue view)"
    using Cons.prems by (intro Cons.IH) auto
  finally show ?case by simp
qed

lemma keys_groupby_sum: "map fst (groupby_sum key view) = sort (remdups (map key view))"
  by (simp add: groupby_sum_def comp_def)

lemma sum_list_groupby_sum:
  "sum_list (map snd (groupby_sum key view)) = sum_list (map Revenue view)"
proof -
  let ?ks = "sort (remdups (map key view))"
  have "distinct ?ks" by simp
  then have "sum_list (map (group_total key view) ?ks) = (\<Sum>k\<in>set ?ks. group_total key view k)"
    by (rule sum_list_distinct_conv_sum_set)
  also have "\<dots> = sum_list (map Revenue view)"
    by (rule sum_list_group_totals) simp_all
  finally show ?thesis
    by (simp add: groupby_sum_def comp_def)
qed

lemma set_groupby_sum:
  "set (groupby_sum key view) = (\<lambda>k. (k, group_total key view k)) ` key ` set view"
  by (simp add: groupby_sum_def)

lemma groupby_sum_exact: "groupby_sum key view = groupby_with sum_list key view"
  by (simp add: groupby_sum_def groupby_with_def group_total_def)

lemma keys_groupby_with:
  "map fst (groupby_with fsum key view) = sort (remdups (map key view))"
  by (simp add: groupby_with_def comp_def)

lemma values_groupby_with:
  "map snd (groupby_with fsum key view) =
     map (\<lambda>k. fsum (map Revenue (filter (\<lambda>r. key r = k) view))) (sort (remdups (map key view)))"
  by (simp add: groupby_with_def comp_def)

lemma mset_groups:
  "distinct ks \<Longrightarrow> key ` set view \<subseteq> set ks \<Longrightarrow>
     mset (concat (map (\<lambda>k. filter (\<lambda>r. key r = k) view) ks)) = mset view"
proof (induction ks arbitrary: view)
  case Nil
  then show ?case by simp
next
  case (Cons k ks)
  let ?rest = "filter (\<lambda>r. key r \<noteq> k) view"
  have same: "filter (\<lambda>r. key r = k') view = filter (\<lambda>r. key r = k') ?rest"
    if "k' \<in> set ks" for k'
  proof -
    from that Cons.prems(1) have "k' \<noteq> k" by auto
    then have "filter (\<lambda>r. key r \<noteq> k \<and> key r = k') view = filter (\<lambda>r. key r = k') view"
      by (intro filter_cong) auto
    then show ?thesis by simp
  qed
  have maps: "map (\<lambda>k'. filter (\<lambda>r. key r = k') view) ks =
        map (\<lambda>k'. filter (\<lambda>r. key r = k') ?rest) ks"
    by (rule map_cong) (simp_all only: same)
  have ih: "mset (concat (map (\<lambda>k'. filter (\<lambda>r. key r = k') ?rest) ks)) = mset ?rest"
    using Cons.prems by (intro Cons.IH) auto
  have "mset (concat (map (\<lambda>k'. filter (\<lambda>r. key r = k') view) (k # ks))) =
      mset (filter (\<lambda>r. key r = k) view) +
      mset (concat (map (\<lambda>k'. filter (\<lambda>r. key r = k') view) ks))"
    by (simp only: list.map concat.simps mset_append)
  also have "\<dots> = mset (filter (\<lambda>r. key r = k) view) + mset ?rest"
    by (simp only: maps ih)
  also have "\<dots> = mset view"
    using multiset_partition [of "mset view" "\<lambda>r. key r = k"] by simp
  finally show ?case .
qed

lemma mset_groupby_rows:
  "mset (concat (map (\<lambda>k. filter (\<lambda>r. key r = k) view) (sort (remdups (map key view)))))
     = mset view"
  by (rule mset_groups) simp_all

text \<open>
  C10, as the code has it. For every view and every summation, \<^verbatim>\<open>region_rev\<close>
  has one entry per region of the view, which holds the sum of the revenues of that
  region's rows; the rows of the groups are together the rows of the view, each once.
  With exact sums the entries add up to \<^verbatim>\<open>kpi_revenue\<close>.
\<close>

theorem region_rev_partitions_view:
  "map fst (region_rev fsum view) = sort (remdups (map Region view)) \<and>
   map snd (region_rev fsum view) =
     map (\<lambda>k. fsum (map Revenue (filter (\<lambda>r. Region r = k) view)))
       (map fst (region_rev fsum view)) \<and>
   mset (concat (map (\<lambda>k. filter (\<lambda>r. Region r = k) view) (map fst (region_rev fsum view))))
     = mset view \<and>
   sum_list (map snd (region_rev sum_list view)) = kpi_revenue sum_list view"
proof (intro conjI)
  show keys: "map fst (region_rev fsum view) = sort (remdups (map Region view))"
    by (simp add: region_rev_def keys_groupby_with)
  show "map snd (region_rev fsum view) =
     map (\<lambda>k. fsum (map Revenue (filter (\<lambda>r. Region r = k) view)))
       (map fst (region_rev fsum view))"
    by (simp only: keys) (simp add: region_rev_def values_groupby_with)
  show "mset (concat (map (\<lambda>k. filter (\<lambda>r. Region r = k) view) (map fst (region_rev fsum view))))
     = mset view"
    by (simp only: keys) (rule mset_groupby_rows)
  have "sum_list (map snd (groupby_sum Region view)) = sum_list (map Revenue view)"
    by (rule sum_list_groupby_sum)
  then show "sum_list (map snd (region_rev sum_list view)) = kpi_revenue sum_list view"
    by (simp add: region_rev_def kpi_revenue_def groupby_sum_exact)
qed

theorem region_rev_partitions_view_witness:
  "region_rev sum_list sample_frame =
     [(''Asia'', 10), (''Europe'', 30), (''North America'', 10)] \<and>
   sum_list (map snd (region_rev sum_list sample_frame)) = 50 \<and>
   kpi_revenue sum_list sample_frame = 50"
  using region_rev_partitions_view [of sum_list sample_frame]
  by (simp add: region_rev_def groupby_with_def kpi_revenue_def sample_orders)

lemma binade_eq: "2 ^ n \<le> x \<Longrightarrow> x < 2 ^ Suc n \<Longrightarrow> binade x = int n"
proof -
  assume lo: "2 ^ n \<le> x" and hi: "x < 2 ^ Suc n"
  have pos: "0 < x"
    using lo by (rule less_le_trans [rotated]) simp
  have "2 powr real_of_int (int n) \<le> x \<and> x < 2 powr real_of_int (int n + 1)"
    using lo hi by (simp add: powr_realpow powr_add)
  then have "\<lfloor>log 2 x\<rfloor> = int n"
    using pos by (simp add: floor_log_eq_powr_iff)
  then show ?thesis
    using pos by (simp add: binade_def)
qed

lemma round64_from_8:
  assumes "8 \<le> x" and "x < 16"
  shows "round64 x = of_int (round_half_even (x * 2 ^ 49)) / 2 ^ 49"
proof -
  have b: "binade x = 3"
    using binade_eq [of 3 x] assms by simp
  have u: "(2::real) powr - 49 = 1 / 2 ^ 49"
    by (simp add: powr_minus_divide)
  show ?thesis
    using assms by (simp add: round64_def b u Let_def)
qed

lemma round64_from_16:
  assumes "16 \<le> x" and "x < 32"
  shows "round64 x = of_int (round_half_even (x * 2 ^ 48)) / 2 ^ 48"
proof -
  have b: "binade x = 4"
    using binade_eq [of 4 x] assms by simp
  have u: "(2::real) powr - 48 = 1 / 2 ^ 48"
    by (simp add: powr_minus_divide)
  show ?thesis
    using assms by (simp add: round64_def b u Let_def)
qed

lemma fl64_add_a: "fl64_add 0 (2871044762448691 / 281474976710656) = 2871044762448691 / 281474976710656"
  unfolding fl64_add_def by (subst round64_from_8) (simp_all add: round_half_even_def Let_def)

lemma fl64_add_b: "fl64_add 0 (5685794529555251 / 562949953421312) = 5685794529555251 / 562949953421312"
  unfolding fl64_add_def by (subst round64_from_8) (simp_all add: round_half_even_def Let_def)

lemma fl64_add_ab:
  "fl64_add (2871044762448691 / 281474976710656) (5685794529555251 / 562949953421312)
     = 1428485506806579 / 70368744177664"
  unfolding fl64_add_def by (subst round64_from_16) (simp_all add: round_half_even_def Let_def)

lemma fl64_add_ba:
  "fl64_add (5685794529555251 / 562949953421312) (2871044762448691 / 281474976710656)
     = 1428485506806579 / 70368744177664"
  unfolding fl64_add_def by (subst round64_from_16) (simp_all add: round_half_even_def Let_def)

lemma fl64_add_aba:
  "fl64_add (1428485506806579 / 70368744177664) (2871044762448691 / 281474976710656)
     = 8584986789675007 / 281474976710656"
  unfolding fl64_add_def by (subst round64_from_16) (simp_all add: round_half_even_def Let_def)

lemma fl64_add_a_ba:
  "fl64_add (2871044762448691 / 281474976710656) (1428485506806579 / 70368744177664)
     = 8584986789675007 / 281474976710656"
  unfolding fl64_add_def by (subst round64_from_16) (simp_all add: round_half_even_def Let_def)

lemma fl64_add_aa:
  "fl64_add (2871044762448691 / 281474976710656) (2871044762448691 / 281474976710656)
     = 2871044762448691 / 140737488355328"
  unfolding fl64_add_def by (subst round64_from_16) (simp_all add: round_half_even_def Let_def)

lemma fl64_add_b_aa:
  "fl64_add (5685794529555251 / 562949953421312) (2871044762448691 / 140737488355328) = 61 / 2"
  unfolding fl64_add_def by (subst round64_from_16) (simp_all add: round_half_even_def Let_def)

lemma fl64_add_aa_b:
  "fl64_add (2871044762448691 / 140737488355328) (5685794529555251 / 562949953421312) = 61 / 2"
  unfolding fl64_add_def by (subst round64_from_16) (simp_all add: round_half_even_def Let_def)

lemmas fl64_steps = fl64_add_a fl64_add_b fl64_add_ab fl64_add_ba fl64_add_aba fl64_add_a_ba
  fl64_add_aa fl64_add_b_aa fl64_add_aa_b

lemmas rounding_rows = rounding_frame_def order_eu_a_def order_asia_b_def order_eu_c_def

lemma kpi_revenue_rounding_frame:
  "kpi_revenue fl64_sum rounding_frame = 8584986789675007 / 281474976710656"
  by (simp add: kpi_revenue_def fl64_sum_def rounding_rows fl64_steps)

lemma region_rev_rounding_frame:
  "region_rev fl64_sum rounding_frame =
     [(''Asia'', 5685794529555251 / 562949953421312),
      (''Europe'', 2871044762448691 / 140737488355328)]"
  by (simp add: region_rev_def groupby_with_def fl64_sum_def rounding_rows fl64_steps)

text \<open>
  C10 as stated has the entries add up to the total revenue in the program, where the
  sums are float64. On three rows with the revenues 10.2 (Europe), 10.1 (Asia) and
  10.2 (Europe) the total is 30.499999999999996, in row order and as well when the
  last two are added first; the entries are 10.1 and 20.4 and add up to 30.5, with
  float64 addition and exactly.
\<close>

theorem region_rev_rounding_counterexample:
  "kpi_revenue fl64_sum rounding_frame = 8584986789675007 / 281474976710656 \<and>
   fl64_add (Revenue order_eu_a) (fl64_add (Revenue order_asia_b) (Revenue order_eu_c))
     = 8584986789675007 / 281474976710656 \<and>
   region_rev fl64_sum rounding_frame =
     [(''Asia'', 5685794529555251 / 562949953421312),
      (''Europe'', 2871044762448691 / 140737488355328)] \<and>
   fl64_sum (map snd (region_rev fl64_sum rounding_frame)) = 61 / 2 \<and>
   fl64_sum (map snd (region_rev fl64_sum rounding_frame))
     \<noteq> kpi_revenue fl64_sum rounding_frame \<and>
   sum_list (map snd (region_rev fl64_sum rounding_frame))
     \<noteq> kpi_revenue fl64_sum rounding_frame"
proof -
  have entries_sum: "fl64_sum (map snd (region_rev fl64_sum rounding_frame)) = 61 / 2"
    by (simp only: region_rev_rounding_frame) (simp add: fl64_sum_def fl64_steps)
  have exact_sum: "sum_list (map snd (region_rev fl64_sum rounding_frame))
      = 17169973579350015 / 562949953421312"
    by (simp only: region_rev_rounding_frame) simp
  have "(61 / 2 :: real) \<noteq> 8584986789675007 / 281474976710656"
    by simp
  moreover have "(17169973579350015 / 562949953421312 :: real)
      \<noteq> 8584986789675007 / 281474976710656"
    by simp
  moreover have "fl64_add (Revenue order_eu_a)
      (fl64_add (Revenue order_asia_b) (Revenue order_eu_c))
      = 8584986789675007 / 281474976710656"
    by (simp add: rounding_rows fl64_steps)
  ultimately show ?thesis
    by (simp only: kpi_revenue_rounding_frame region_rev_rounding_frame [symmetric]
        entries_sum exact_sum) simp
qed




lemma idxmax_empty_iff: "idxmax s = Inl ValueError \<longleftrightarrow> s = []"
  by (simp add: idxmax_def split: list.splits)

lemma groupby_sum_empty_iff: "groupby_sum key view = [] \<longleftrightarrow> view = []"
proof -
  have "set (groupby_sum key view) = {} \<longleftrightarrow> set view = {}"
    by (simp add: set_groupby_sum)
  then show ?thesis
    by (simp only: set_empty)
qed



lemma series_max_empty_iff: "series_max s = NaN \<longleftrightarrow> s = []"
  by (simp add: series_max_def split: list.splits)

lemma idxmax_nonempty: "s \<noteq> [] \<Longrightarrow> \<exists>k. idxmax s = Inr k"
  by (cases s) (simp_all add: idxmax_def)

lemma series_max_nonempty: "s \<noteq> [] \<Longrightarrow> \<exists>x. series_max s = Finite x"
  by (cases s) (simp_all add: series_max_def)

text \<open>
  C5, as the code has it. On the empty view \<^verbatim>\<open>idxmax\<close> raises ValueError, at line
  132 (top region) and at line 133 (busiest day), while \<^verbatim>\<open>max\<close> at line 131 (top
  category revenue) raises nothing and gives NaN. On every other view each of the
  three returns a value: a region, a date, a number.
\<close>

theorem aggregates_on_empty_view:
  "(view = [] \<longrightarrow>
      top_region view = Inl ValueError \<and> busiest_day view = Inl ValueError \<and>
      top_category_revenue view = NaN) \<and>
   (view \<noteq> [] \<longrightarrow>
      (\<exists>k. top_region view = Inr k) \<and> (\<exists>day. busiest_day view = Inr day) \<and>
      (\<exists>x. top_category_revenue view = Finite x))"
proof (intro conjI impI)
  assume "view = []"
  then show "top_region view = Inl ValueError"
    by (simp add: top_region_def idxmax_empty_iff groupby_sum_empty_iff)
  from \<open>view = []\<close> show "busiest_day view = Inl ValueError"
    by (simp add: busiest_day_def idxmax_empty_iff groupby_sum_empty_iff)
  from \<open>view = []\<close> show "top_category_revenue view = NaN"
    by (simp add: top_category_revenue_def series_max_empty_iff groupby_sum_empty_iff)
next
  assume "view \<noteq> []"
  then show "\<exists>k. top_region view = Inr k"
    by (simp add: top_region_def idxmax_nonempty groupby_sum_empty_iff)
  from \<open>view \<noteq> []\<close> show "\<exists>day. busiest_day view = Inr day"
    by (simp add: busiest_day_def idxmax_nonempty groupby_sum_empty_iff)
  from \<open>view \<noteq> []\<close> show "\<exists>x. top_category_revenue view = Finite x"
    by (simp add: top_category_revenue_def series_max_nonempty groupby_sum_empty_iff)
qed

theorem aggregates_on_empty_view_witness:
  "top_region [] = Inl ValueError \<and> busiest_day [] = Inl ValueError \<and>
   top_category_revenue [] = NaN \<and>
   top_region sample_frame = Inr ''Europe'' \<and> busiest_day sample_frame = Inr 20091 \<and>
   top_category_revenue sample_frame = Finite 40"
  using aggregates_on_empty_view [of "[]"] aggregates_on_empty_view [of sample_frame]
  by (simp add: top_region_def busiest_day_def top_category_revenue_def idxmax_def
      series_max_def groupby_sum_def group_total_def sample_orders)

text \<open>
  C5 as stated asks the three aggregates to agree on the empty view: all fail, or all
  return one sentinel. They do not: one returns NaN, two raise ValueError.
\<close>

theorem aggregates_inconsistent_on_empty_counterexample:
  "top_category_revenue [] = NaN \<and>
   top_region [] = Inl ValueError \<and> busiest_day [] = Inl ValueError"
  by (simp add: top_region_def busiest_day_def top_category_revenue_def idxmax_def
      series_max_def groupby_sum_def)




section \<open>Properties of the export\<close>

lemma join_commas_frame_columns:
  "join_commas frame_columns =
     ''Date,Order_ID,Customer_ID,Region,Category,Product,Quantity,Unit_Price,Discount,Revenue''"
  by (simp add: frame_columns_def)

lemma length_csv_cells: "length (csv_cells fm r) = length frame_columns"
  by (simp add: csv_cells_def frame_columns_def)

text \<open>
  C8, as the code has it. The export is the line of the ten column names of the frame
  followed by one line per record of the view, each of ten cells: line 121 writes
  \<^verbatim>\<open>filtered_df\<close> whole, so \<^verbatim>\<open>Order_ID\<close>, \<^verbatim>\<open>Customer_ID\<close> and
  \<^verbatim>\<open>Discount\<close> are written too.
\<close>

theorem to_csv_writes_every_column:
  "to_csv fm view =
     ''Date,Order_ID,Customer_ID,Region,Category,Product,Quantity,Unit_Price,Discount,Revenue''
       @ [CHR 0x0A]
       @ concat (map (\<lambda>r. join_commas (csv_cells fm r) @ [CHR 0x0A]) view) \<and>
   length (to_csv_rows fm view) = 1 + length view \<and>
   hd (to_csv_rows fm view) = frame_columns \<and>
   map length (tl (to_csv_rows fm view)) = replicate (length view) 10 \<and>
   length frame_columns = 10"
proof (intro conjI)
  show "to_csv fm view =
     ''Date,Order_ID,Customer_ID,Region,Category,Product,Quantity,Unit_Price,Discount,Revenue''
       @ [CHR 0x0A]
       @ concat (map (\<lambda>r. join_commas (csv_cells fm r) @ [CHR 0x0A]) view)"
    by (simp add: to_csv_def to_csv_rows_def join_commas_frame_columns comp_def)
  show "length (to_csv_rows fm view) = 1 + length view"
    by (simp add: to_csv_rows_def)
  show "hd (to_csv_rows fm view) = frame_columns"
    by (simp add: to_csv_rows_def)
  show "map length (tl (to_csv_rows fm view)) = replicate (length view) 10"
    by (simp add: to_csv_rows_def comp_def length_csv_cells frame_columns_def map_replicate_const)
  show "length frame_columns = 10"
    by (simp add: frame_columns_def)
qed

theorem to_csv_writes_every_column_witness:
  "to_csv sample_format [order_eu] =
     ''Date,Order_ID,Customer_ID,Region,Category,Product,Quantity,Unit_Price,Discount,Revenue''
       @ [CHR 0x0A] @ ''d,i,i,Europe,Books,Novel,i,x,x,x'' @ [CHR 0x0A] \<and>
   length (to_csv_rows sample_format [order_eu]) = 2"
  using to_csv_writes_every_column [of sample_format "[order_eu]"]
  by (simp add: csv_cells_def sample_format_def order_eu_def)

text \<open>
  C8 as stated limits the export to the seven columns of the table of line 117. The
  export of a view of one record has ten names in its header and ten cells in its
  row; three of the names are not among the seven.
\<close>

theorem to_csv_extra_columns_counterexample:
  "hd (to_csv_rows sample_format [order_eu]) =
     [''Date'', ''Order_ID'', ''Customer_ID'', ''Region'', ''Category'', ''Product'',
      ''Quantity'', ''Unit_Price'', ''Discount'', ''Revenue''] \<and>
   to_csv_rows sample_format [order_eu] ! 1 =
     [''d'', ''i'', ''i'', ''Europe'', ''Books'', ''Novel'', ''i'', ''x'', ''x'', ''x''] \<and>
   ''Order_ID'' \<in> set (hd (to_csv_rows sample_format [order_eu])) \<and>
   ''Order_ID'' \<notin> set table_columns \<and>
   ''Customer_ID'' \<in> set (hd (to_csv_rows sample_format [order_eu])) \<and>
   ''Customer_ID'' \<notin> set table_columns \<and>
   ''Discount'' \<in> set (hd (to_csv_rows sample_format [order_eu])) \<and>
   ''Discount'' \<notin> set table_columns"
proof -
  have header: "hd (to_csv_rows sample_format [order_eu]) =
     [''Date'', ''Order_ID'', ''Customer_ID'', ''Region'', ''Category'', ''Product'',
      ''Quantity'', ''Unit_Price'', ''Discount'', ''Revenue'']"
    by (simp add: to_csv_rows_def frame_columns_def)
  have row: "to_csv_rows sample_format [order_eu] ! 1 =
     [''d'', ''i'', ''i'', ''Europe'', ''Books'', ''Novel'', ''i'', ''x'', ''x'', ''x'']"
    by (simp add: to_csv_rows_def csv_cells_def sample_format_def order_eu_def)
  have a: "''Order_ID'' \<in> set (hd (to_csv_rows sample_format [order_eu]))"
    by (simp only: header) simp
  have b: "''Customer_ID'' \<in> set (hd (to_csv_rows sample_format [order_eu]))"
    by (simp only: header) simp
  have c: "''Discount'' \<in> set (hd (to_csv_rows sample_format [order_eu]))"
    by (simp only: header) simp
  have a': "''Order_ID'' \<notin> set table_columns"
    by (simp add: table_columns_def)
  have b': "''Customer_ID'' \<notin> set table_columns"
    by (simp add: table_columns_def)
  have c': "''Discount'' \<notin> set table_columns"
    by (simp add: table_columns_def)
  from header row a a' b b' c c' show ?thesis
    by (intro conjI)
qed

end
